theory Spec2Isabelle
  imports Main "HOL-Library.Word" "HOL-Library.Sublist"
begin

section \<open>JavaScript strings\<close>

text \<open>
  A JavaScript string is a sequence of UTF-16 code units; \<open>length\<close> counts code units.
  \<open>js\<close> writes an ASCII literal as code units. Characters outside ASCII are written
  as their code units, so \<open>[0xD83D, 0xDE0A]\<close> is U+1F60A.
\<close>

type_synonym jsstring = "16 word list"

definition js :: "string \<Rightarrow> jsstring" where
  "js s = map (\<lambda>c. of_char c) s"

text \<open>
  \<open>String.prototype.toLowerCase\<close>, on the code units whose lower case lies in or
  touches the ASCII range: the letters A to Z, U+212A (Kelvin sign, lower case \<open>k\<close>)
  and U+0130 (capital I with dot above, lower case \<open>i\<close> followed by U+0307). Every
  other code unit is kept as it is: the rest of the Unicode case table is not part of
  this development. All keywords of the program are ASCII.
\<close>

definition lowerUnit :: "16 word \<Rightarrow> jsstring" where
  "lowerUnit u =
     (if 0x41 \<le> u \<and> u \<le> 0x5A then [u + 0x20]
      else if u = 0x212A then [0x6B]
      else if u = 0x130 then [0x69, 0x307]
      else [u])"

definition toLowerCase :: "jsstring \<Rightarrow> jsstring" where
  "toLowerCase s = concat (map lowerUnit s)"

text \<open>\<open>s.includes(t)\<close>: \<open>t\<close> occurs in \<open>s\<close> as a contiguous run of code units.\<close>

definition js_includes :: "jsstring \<Rightarrow> jsstring \<Rightarrow> bool" where
  "js_includes s t = sublist t s"

text \<open>
  \<open>s.split(sep)\<close> for a separator of one code unit: the pieces between the
  separators, empty pieces included; the empty string gives one empty piece.
\<close>

fun js_split :: "jsstring \<Rightarrow> 16 word \<Rightarrow> jsstring list" where
  "js_split [] sep = [[]]"
| "js_split (c # cs) sep =
     (if c = sep then [] # js_split cs sep
      else (case js_split cs sep of
              [] \<Rightarrow> [[c]]
            | w # ws \<Rightarrow> (c # w) # ws))"

text \<open>\<open>xs.findIndex(P)\<close>: the first index whose element satisfies \<open>P\<close>, or \<open>-1\<close>.\<close>

fun findIndex :: "('a \<Rightarrow> bool) \<Rightarrow> 'a list \<Rightarrow> int" where
  "findIndex P [] = - 1"
| "findIndex P (x # xs) =
     (if P x then 0
      else (let i = findIndex P xs in if i < 0 then - 1 else i + 1))"

text \<open>The decimal digits of a number, as a template literal prints it.\<close>

fun numToString :: "nat \<Rightarrow> jsstring" where
  "numToString n =
     (if n < 10 then [0x30 + of_nat n]
      else numToString (n div 10) @ [0x30 + of_nat (n mod 10)])"

declare numToString.simps [simp del]


section \<open>Data model\<close>

record BPSDataItem =
  subject_id :: jsstring
  title :: jsstring
  description :: jsstring
  url :: jsstring
  category :: jsstring

text \<open>An entry of a message's \<open>sources\<close> array.\<close>

record Source =
  title :: jsstring
  url :: jsstring

text \<open>
  The fields of an assistant \<open>Message\<close> that the engine computes; \<open>None\<close> is
  \<open>undefined\<close>. The fields \<open>id\<close>, \<open>type\<close> and \<open>timestamp\<close> belong to the shell.
\<close>

record Message =
  content :: jsstring
  sources :: "Source list option"
  relatedData :: "BPSDataItem list option"

datatype error = TypeError


section \<open>The mock catalogue\<close>

definition getCategories :: "jsstring list" where
  "getCategories =
     [js ''Kependudukan dan Demografi'',
      js ''Ekonomi dan Perdagangan'',
      js ''Pendidikan dan Kesehatan'',
      js ''Infrastruktur dan Pembangunan'',
      js ''Sosial dan Budaya'',
      js ''Pertanian dan Perikanan'',
      js ''Industri dan Energi'',
      js ''Transportasi dan Komunikasi'']"

definition mockData :: "BPSDataItem list" where
  "mockData =
     [\<lparr>subject_id = js ''pop_001'',
       BPSDataItem.title = js ''Data Penduduk Kota Medan 2024'',
       description = js ''Statistik lengkap penduduk Kota Medan berdasarkan kelompok usia, jenis kelamin, dan sebaran geografis'',
       BPSDataItem.url = js ''https://medankota.bps.go.id/id/statistics-table/2/pop_001'',
       category = js ''Kependudukan''\<rparr>,
      \<lparr>subject_id = js ''econ_001'',
       BPSDataItem.title = js ''PDRB Kota Medan Atas Dasar Harga Konstan'',
       description = js ''Produk Domestik Regional Bruto Kota Medan menurut lapangan usaha atas dasar harga konstan'',
       BPSDataItem.url = js ''https://medankota.bps.go.id/id/statistics-table/2/econ_001'',
       category = js ''Ekonomi''\<rparr>,
      \<lparr>subject_id = js ''edu_001'',
       BPSDataItem.title = js ''Statistik Pendidikan Kota Medan'',
       description = js ''Data lengkap tentang jumlah sekolah, siswa, dan tenaga pendidik di Kota Medan'',
       BPSDataItem.url = js ''https://medankota.bps.go.id/id/statistics-table/2/edu_001'',
       category = js ''Pendidikan''\<rparr>]"

definition detectSpecificKeywords :: "jsstring \<Rightarrow> BPSDataItem list" where
  "detectSpecificKeywords question =
     (let keywords = toLowerCase question in
      filter (\<lambda>item.
          js_includes keywords (toLowerCase (category item)) \<or>
          js_includes keywords (js ''populasi'') \<and> js_includes (subject_id item) (js ''pop'') \<or>
          js_includes keywords (js ''ekonomi'') \<and> js_includes (subject_id item) (js ''econ'') \<or>
          js_includes keywords (js ''pendidikan'') \<and> js_includes (subject_id item) (js ''edu''))
        mockData)"

definition searchBPSData :: "jsstring \<Rightarrow> BPSDataItem list" where
  "searchBPSData query = detectSpecificKeywords query"


section \<open>Query classifier\<close>

definition detectQuestionType :: "jsstring \<Rightarrow> jsstring" where
  "detectQuestionType question =
     (let lower = toLowerCase question in
      if js_includes lower (js ''halo'') \<or> js_includes lower (js ''hai'') \<or>
         js_includes lower (js ''hello'') then js ''greeting''
      else if js_includes lower (js ''terima kasih'') \<or>
         js_includes lower (js ''thanks'') then js ''thanks''
      else if js_includes lower (js ''siapa'') \<or> js_includes lower (js ''who'') \<or>
         js_includes lower (js ''kamu siapa'') \<or>
         js_includes lower (js ''anda siapa'') then js ''identity''
      else if js_includes lower (js ''list'') \<or> js_includes lower (js ''daftar'') \<or>
         js_includes lower (js ''kategori'') then js ''list''
      else js ''information'')"


section \<open>Dataset matcher\<close>

text \<open>
  The \<open>for\<close> loop of \<open>findRelevantData\<close> over the words, with \<open>partialResults\<close>
  as the accumulator.
\<close>

fun findRelevantData_loop :: "jsstring list \<Rightarrow> BPSDataItem list \<Rightarrow> BPSDataItem list" where
  "findRelevantData_loop [] partialResults = partialResults"
| "findRelevantData_loop (word # words) partialResults =
     (let wordResults = detectSpecificKeywords word in
      if length wordResults > 0
      then findRelevantData_loop words (partialResults @ wordResults)
      else (let searchResults = searchBPSData word in
            findRelevantData_loop words (partialResults @ take 2 searchResults)))"

text \<open>
  \<open>self.filter((item, index, self) => index === self.findIndex(t => t.subject_id ===
  item.subject_id))\<close>: an element stays when it is the first one with its \<open>subject_id\<close>.
\<close>

definition uniqueBySubject :: "BPSDataItem list \<Rightarrow> BPSDataItem list" where
  "uniqueBySubject self =
     map snd (filter (\<lambda>(index, item).
         int index = findIndex (\<lambda>t. subject_id t = subject_id item) self)
       (enumerate 0 self))"

definition findRelevantData :: "jsstring \<Rightarrow> BPSDataItem list" where
  "findRelevantData question =
     (let keywordResults = detectSpecificKeywords question in
      if length keywordResults > 0 then take 5 keywordResults
      else (let results = searchBPSData question in
        if length results > 0 then take 5 results
        else (let words = filter (\<lambda>word. length word > 2)
                            (js_split (toLowerCase question) 0x20);
                  partialResults = findRelevantData_loop words [];
                  uniqueResults = uniqueBySubject partialResults
              in take 3 uniqueResults)))"


section \<open>Response composer\<close>

text \<open>
  The repository holds two versions of the page. They share the classifier, the matcher
  and the computation of the sources, and differ in the literal texts of the composer.
  \<open>generatePersonalizedResponse\<close> is the composer of the first version,
  \<open>generatePersonalizedResponse2\<close> the one of the second version, which also holds the
  catalogue functions above. Reading \<open>relevantData[0]\<close> out of range gives
  \<open>undefined\<close>, whose field access throws a \<open>TypeError\<close>.
\<close>

definition generatePersonalizedResponse ::
  "jsstring \<Rightarrow> jsstring \<Rightarrow> BPSDataItem list \<Rightarrow> error + jsstring" where
  "generatePersonalizedResponse question questionType relevantData =
     (if questionType = js ''greeting'' then
        Inr (js ''Halo juga! '' @ [0xD83D, 0xDE0A] @ js '' Senang bertemu dengan Anda! Saya siap membantu Anda menemukan data statistik resmi BPS Kota Medan.'')
      else if questionType = js ''thanks'' then
        Inr (js ''Sama-sama! '' @ [0xD83D, 0xDE0A] @ js '' Saya senang bisa membantu. Silakan tanyakan lagi jika ada yang lain!'')
      else if questionType = js ''identity'' then
        Inr (js ''Saya adalah AI Data Assistant khusus untuk BPS Kota Medan! '' @ [0xD83E, 0xDD16] @ js '' Saya diciptakan untuk membantu Anda mengakses dan mencari data statistik resmi BPS dengan mudah.'')
      else if questionType = js ''list'' then
        (let categories = getCategories;
             response = js ''Tentu! '' @ [0xD83D, 0xDCCB] @ js '' BPS Kota Medan memiliki '' @ numToString (length categories) @ js '' kategori utama statistik:'' @ [0x0A, 0x0A]
         in Inr (foldl (\<lambda>response (index, category).
                    response @ numToString (index + 1) @ js ''. '' @ category @ [0x0A])
                  response (enumerate 0 categories)))
      else if length relevantData > 0 then
        (case relevantData of
           [] \<Rightarrow> Inl TypeError
         | primaryResult # _ \<Rightarrow>
             (let response = js ''Bagus! Saya menemukan dataset yang relevan: **'' @ BPSDataItem.title primaryResult @ js ''**'' @ [0x0A, 0x0A];
                  response = response @ description primaryResult @ [0x0A, 0x0A];
                  response = (if length relevantData > 1
                              then response @ js ''Berikut juga beberapa data terkait yang mungkin berguna:'' @ [0x0A]
                              else response)
              in Inr (response @ js ''Klik link di bawah untuk melihat data lengkap dari portal resmi BPS. '' @ [0xD83D, 0xDD17])))
      else
        Inr (js ''Maaf, saya tidak menemukan data yang relevan dengan pertanyaan Anda. '' @ [0xD83E, 0xDD14] @ js '' Coba gunakan kata kunci yang lebih spesifik.''))"

definition generatePersonalizedResponse2 ::
  "jsstring \<Rightarrow> jsstring \<Rightarrow> BPSDataItem list \<Rightarrow> error + jsstring" where
  "generatePersonalizedResponse2 question questionType relevantData =
     (if questionType = js ''greeting'' then
        Inr (js ''Halo juga! '' @ [0xF0, 0x178, 0x2018, 0x2039] @ js '' Senang bertemu dengan Anda! Saya siap membantu Anda menemukan data statistik resmi BPS Kota Medan.'')
      else if questionType = js ''thanks'' then
        Inr (js ''Sama-sama! '' @ [0xF0, 0x178, 0x2DC, 0x160] @ js '' Saya senang bisa membantu. Silakan tanyakan lagi jika ada yang lain!'')
      else if questionType = js ''identity'' then
        Inr (js ''Saya adalah AI Data Assistant khusus untuk BPS Kota Medan! '' @ [0xF0, 0x178, 0xA4, 0x2013] @ js '' Saya diciptakan untuk membantu Anda mengakses dan mencari data statistik resmi BPS dengan mudah.'')
      else if questionType = js ''list'' then
        (let categories = getCategories;
             response = js ''Tentu! '' @ [0xF0, 0x178, 0x201C, 0x160] @ js '' BPS Kota Medan memiliki '' @ numToString (length categories) @ js '' kategori utama statistik:'' @ [0x0A, 0x0A]
         in Inr (foldl (\<lambda>response (index, category).
                    response @ numToString (index + 1) @ js ''. '' @ category @ [0x0A])
                  response (enumerate 0 categories)))
      else if length relevantData > 0 then
        (case relevantData of
           [] \<Rightarrow> Inl TypeError
         | primaryResult # _ \<Rightarrow>
             (let response = js ''Bagus! Saya menemukan dataset yang relevan: **'' @ BPSDataItem.title primaryResult @ js ''**'' @ [0x0A, 0x0A];
                  response = response @ description primaryResult @ [0x0A, 0x0A];
                  response = (if length relevantData > 1
                              then response @ js ''Berikut juga beberapa data terkait yang mungkin berguna:'' @ [0x0A]
                              else response)
              in Inr (response @ js ''Klik link di bawah untuk melihat data lengkap dari portal resmi BPS. '' @ [0xF0, 0x178, 0x201D, 0x2014])))
      else
        Inr (js ''Maaf, saya tidak menemukan data yang relevan dengan pertanyaan Anda. '' @ [0xF0, 0x178, 0x2122] @ js '' Coba gunakan kata kunci yang lebih spesifik seperti '' @ [0x22] @ js ''populasi'' @ [0x22] @ js '', '' @ [0x22] @ js ''ekonomi'' @ [0x22] @ js '', '' @ [0x22] @ js ''pendidikan'' @ [0x22] @ js '', atau '' @ [0x22] @ js ''infrastruktur'' @ [0x22] @ js ''.''))"


section \<open>The pipeline of \<open>handleSubmit\<close>\<close>

text \<open>
  The \<open>sources\<close> and \<open>relatedData\<close> that the timer callback of \<open>handleSubmit\<close>
  stores in the assistant message; the expression is the same in both versions.
\<close>

definition handleSubmit_sources :: "jsstring \<Rightarrow> BPSDataItem list \<Rightarrow> Source list option" where
  "handleSubmit_sources questionType relevantData =
     (if length relevantData > 0
      then Some (map (\<lambda>item. \<lparr>Source.title = BPSDataItem.title item,
                               Source.url = BPSDataItem.url item\<rparr>) relevantData)
      else if questionType \<noteq> js ''greeting'' \<and> questionType \<noteq> js ''thanks'' \<and>
              questionType \<noteq> js ''identity'' \<and> questionType \<noteq> js ''list''
      then Some [\<lparr>Source.title = js ''Portal Resmi BPS Kota Medan'',
                   Source.url = js ''https://medankota.bps.go.id/id''\<rparr>]
      else None)"

definition handleSubmit_relatedData :: "BPSDataItem list \<Rightarrow> BPSDataItem list option" where
  "handleSubmit_relatedData relevantData =
     (if length relevantData > 0 then Some relevantData else None)"

text \<open>
  The assistant message once the reply is fully shown: classifier, matcher and composer
  run on the submitted text. The guards of \<open>handleSubmit\<close> on empty input and on a
  reply in progress, and the timers, belong to the shell.
\<close>

definition handleSubmit_reply :: "jsstring \<Rightarrow> error + Message" where
  "handleSubmit_reply currentInput =
     (let questionType = detectQuestionType currentInput;
          relevantData = findRelevantData currentInput
      in case generatePersonalizedResponse currentInput questionType relevantData of
           Inl e \<Rightarrow> Inl e
         | Inr responseContent \<Rightarrow>
             Inr \<lparr>content = responseContent,
                  sources = handleSubmit_sources questionType relevantData,
                  relatedData = handleSubmit_relatedData relevantData\<rparr>)"

definition handleSubmit_reply2 :: "jsstring \<Rightarrow> error + Message" where
  "handleSubmit_reply2 currentInput =
     (let questionType = detectQuestionType currentInput;
          relevantData = findRelevantData currentInput
      in case generatePersonalizedResponse2 currentInput questionType relevantData of
           Inl e \<Rightarrow> Inl e
         | Inr responseContent \<Rightarrow>
             Inr \<lparr>content = responseContent,
                  sources = handleSubmit_sources questionType relevantData,
                  relatedData = handleSubmit_relatedData relevantData\<rparr>)"


section \<open>Evaluation on concrete inputs\<close>

lemmas js_eval = js_def toLowerCase_def lowerUnit_def js_includes_def sublist_Cons_right

lemma detect_populasi:
  "detectSpecificKeywords (js ''populasi kota medan'') = [mockData ! 0]"
  by (simp add: detectSpecificKeywords_def mockData_def js_eval)

lemma detect_pendidikan:
  "detectSpecificKeywords (js ''data pendidikan'') = [mockData ! 2]"
  by (simp add: detectSpecificKeywords_def mockData_def js_eval)

lemma detect_halo_pendidikan:
  "detectSpecificKeywords (js ''halo pendidikan'') = [mockData ! 2]"
  by (simp add: detectSpecificKeywords_def mockData_def js_eval)

lemma type_data_pendidikan:
  "detectQuestionType (js ''data pendidikan'') = js ''information''"
  by (simp add: detectQuestionType_def js_eval)

lemma type_halo_pendidikan:
  "detectQuestionType (js ''halo pendidikan'') = js ''greeting''"
  by (simp add: detectQuestionType_def js_eval)

lemma numToString_digit: "n < 10 \<Longrightarrow> numToString n = [0x30 + of_nat n]"
  by (simp add: numToString.simps)

lemma upt_8: "[0..<8] = [0, 1, 2, 3, 4, 5, 6, 7]"
  by (simp add: upt_rec)

lemma mockData_2:
  "mockData ! 2 =
     \<lparr>subject_id = js ''edu_001'',
      BPSDataItem.title = js ''Statistik Pendidikan Kota Medan'',
      description = js ''Data lengkap tentang jumlah sekolah, siswa, dan tenaga pendidik di Kota Medan'',
      BPSDataItem.url = js ''https://medankota.bps.go.id/id/statistics-table/2/edu_001'',
      category = js ''Pendidikan''\<rparr>"
  by (simp add: mockData_def)

lemma questionType_distinct:
  "js ''information'' \<noteq> js ''greeting''" "js ''information'' \<noteq> js ''thanks''"
  "js ''information'' \<noteq> js ''identity''" "js ''information'' \<noteq> js ''list''"
  "js ''greeting'' \<noteq> js ''thanks''" "js ''greeting'' \<noteq> js ''identity''"
  "js ''greeting'' \<noteq> js ''list''" "js ''thanks'' \<noteq> js ''identity''"
  "js ''thanks'' \<noteq> js ''list''" "js ''identity'' \<noteq> js ''list''"
  by (simp_all add: js_def)

lemma find_pendidikan: "findRelevantData (js ''data pendidikan'') = [mockData ! 2]"
  by (simp add: findRelevantData_def detect_pendidikan)

lemma find_halo_pendidikan: "findRelevantData (js ''halo pendidikan'') = [mockData ! 2]"
  by (simp add: findRelevantData_def detect_halo_pendidikan)

lemma includes_middle: "js_includes (p @ t @ s) t"
  by (simp add: js_includes_def)

lemma includes_middle2: "js_includes (p @ t @ m @ d @ s) d"
proof -
  have "sublist d ((p @ t @ m) @ d @ s)" by (rule sublist_appendI)
  then show ?thesis by (simp add: js_includes_def)
qed


section \<open>The full-text phase\<close>

text \<open>
  Claim C3. \<open>searchBPSData\<close> and \<open>detectSpecificKeywords\<close> are the same function:
  on every input string the full-text phase returns the record list of the keyword phase.
\<close>

theorem searchBPSData_is_detectSpecificKeywords:
  "searchBPSData = detectSpecificKeywords"
  by (rule ext) (simp add: searchBPSData_def)


section \<open>Properties of the classifier\<close>

text \<open>
  Claim C4. \<open>detectQuestionType\<close> tests the keyword sets in the order greeting, thanks,
  identity, list, on the lower-cased text, and the first set with a keyword in the text
  decides: a greeting keyword gives \<open>greeting\<close> whatever else the text holds (a thanks
  keyword included); a thanks keyword gives \<open>thanks\<close> when no greeting keyword occurs;
  and so on down the order. A text with no keyword, the empty text among them, gives
  \<open>information\<close>.
\<close>

theorem detectQuestionType_priority:
  "(let lower = toLowerCase text;
        hasGreeting = (js_includes lower (js ''halo'') \<or> js_includes lower (js ''hai'') \<or>
                       js_includes lower (js ''hello''));
        hasThanks = (js_includes lower (js ''terima kasih'') \<or>
                     js_includes lower (js ''thanks''));
        hasIdentity = (js_includes lower (js ''siapa'') \<or> js_includes lower (js ''who'') \<or>
                       js_includes lower (js ''kamu siapa'') \<or>
                       js_includes lower (js ''anda siapa''));
        hasList = (js_includes lower (js ''list'') \<or> js_includes lower (js ''daftar'') \<or>
                   js_includes lower (js ''kategori''))
    in (hasGreeting \<longrightarrow> detectQuestionType text = js ''greeting'') \<and>
       (\<not> hasGreeting \<and> hasThanks \<longrightarrow> detectQuestionType text = js ''thanks'') \<and>
       (\<not> hasGreeting \<and> \<not> hasThanks \<and> hasIdentity \<longrightarrow>
          detectQuestionType text = js ''identity'') \<and>
       (\<not> hasGreeting \<and> \<not> hasThanks \<and> \<not> hasIdentity \<and> hasList \<longrightarrow>
          detectQuestionType text = js ''list'') \<and>
       (\<not> hasGreeting \<and> \<not> hasThanks \<and> \<not> hasIdentity \<and> \<not> hasList \<longrightarrow>
          detectQuestionType text = js ''information'')) \<and>
   detectQuestionType [] = js ''information''"
proof
  show "detectQuestionType [] = js ''information''"
    by (simp add: detectQuestionType_def js_eval)
qed (simp add: detectQuestionType_def Let_def)

theorem detectQuestionType_priority_witness:
  "js_includes (toLowerCase (js ''Halo, terima kasih'')) (js ''halo'') \<and>
   js_includes (toLowerCase (js ''Halo, terima kasih'')) (js ''terima kasih'') \<and>
   detectQuestionType (js ''Halo, terima kasih'') = js ''greeting'' \<and>
   detectQuestionType (js ''Thanks, kamu siapa'') = js ''thanks'' \<and>
   detectQuestionType (js ''Anda siapa? daftar'') = js ''identity'' \<and>
   detectQuestionType (js ''Daftar kategori'') = js ''list'' \<and>
   detectQuestionType (js ''data pendidikan'') = js ''information''"
  using detectQuestionType_priority [of "js ''Halo, terima kasih''"]
    detectQuestionType_priority [of "js ''Thanks, kamu siapa''"]
    detectQuestionType_priority [of "js ''Anda siapa? daftar''"]
    detectQuestionType_priority [of "js ''Daftar kategori''"]
    detectQuestionType_priority [of "js ''data pendidikan''"]
  by (simp add: Let_def js_eval)


section \<open>Lower case and tokens\<close>

text \<open>
  Lower-casing leaves a lower-cased string as it is, and every piece that \<open>split\<close>
  returns is a contiguous part of the string that was split.
\<close>

lemma lowerUnit_upper:
  fixes u :: "16 word"
  assumes "0x41 \<le> u" "u \<le> 0x5A"
  shows "lowerUnit (u + 0x20) = [u + 0x20]"
proof -
  have lo: "65 \<le> unat u" and hi: "unat u \<le> 90"
    using assms by (simp_all add: word_le_nat_alt)
  have "unat u + unat (0x20 :: 16 word) < 2 ^ LENGTH(16)"
    using hi by simp
  then have "unat (u + 0x20) = unat u + unat (0x20 :: 16 word)"
    by (simp only: unat_add_lem)
  then have sum: "unat (u + 0x20) = unat u + 32" by simp
  have "\<not> (u + 0x20 \<le> 0x5A)"
    using lo sum by (simp add: word_le_nat_alt)
  moreover have "u + 0x20 \<noteq> 0x212A"
  proof
    assume "u + 0x20 = 0x212A"
    then have "unat (u + 0x20) = unat (0x212A :: 16 word)" by simp
    with sum hi show False by simp
  qed
  moreover have "u + 0x20 \<noteq> 0x130"
  proof
    assume "u + 0x20 = 0x130"
    then have "unat (u + 0x20) = unat (0x130 :: 16 word)" by simp
    with sum hi show False by simp
  qed
  ultimately show ?thesis by (simp add: lowerUnit_def)
qed

lemma lowerUnit_fixed:
  assumes "c \<in> set (lowerUnit u)"
  shows "lowerUnit c = [c]"
proof (cases "0x41 \<le> u \<and> u \<le> 0x5A")
  case True
  with assms have "c = u + 0x20" by (simp add: lowerUnit_def)
  with True show ?thesis by (simp add: lowerUnit_upper)
next
  case False
  have rest: "lowerUnit u =
      (if u = 0x212A then [0x6B] else if u = 0x130 then [0x69, 0x307] else [u])"
    unfolding lowerUnit_def by (rule if_not_P [OF False])
  show ?thesis
  proof (cases "u = 0x212A \<or> u = 0x130")
    case True
    with assms rest have "c = 0x6B \<or> c = 0x69 \<or> c = 0x307"
      by (auto split: if_splits)
    then show ?thesis by (auto simp add: lowerUnit_def)
  next
    case other: False
    with assms rest have "c = u" by simp
    moreover from other rest have "lowerUnit u = [u]" by simp
    ultimately show ?thesis by simp
  qed
qed

lemma toLowerCase_fixed: "\<forall>c \<in> set s. lowerUnit c = [c] \<Longrightarrow> toLowerCase s = s"
  by (induction s) (simp_all add: toLowerCase_def)

lemma toLowerCase_units: "c \<in> set (toLowerCase s) \<Longrightarrow> lowerUnit c = [c]"
  by (auto simp add: toLowerCase_def lowerUnit_fixed)

lemma toLowerCase_append: "toLowerCase (a @ b) = toLowerCase a @ toLowerCase b"
  by (simp add: toLowerCase_def)

lemma toLowerCase_idem: "toLowerCase (toLowerCase s) = toLowerCase s"
  by (simp add: toLowerCase_fixed toLowerCase_units)

lemma toLowerCase_sublist:
  assumes "sublist w (toLowerCase q)"
  shows "toLowerCase w = w"
proof (rule toLowerCase_fixed, rule ballI)
  fix c assume "c \<in> set w"
  with assms have "c \<in> set (toLowerCase q)"
    using set_mono_sublist by blast
  then show "lowerUnit c = [c]" by (rule toLowerCase_units)
qed

lemma js_split_nonempty: "js_split s sep \<noteq> []"
  by (induction s) (auto split: list.splits)

lemma js_split_hd_prefix: "js_split s sep = v # vs \<Longrightarrow> prefix v s"
proof (induction s arbitrary: v vs)
  case Nil
  then show ?case by simp
next
  case (Cons c cs)
  then show ?case
    by (cases "js_split cs sep") (auto split: if_splits)
qed

lemma js_split_sublist: "w \<in> set (js_split s sep) \<Longrightarrow> sublist w s"
proof (induction s arbitrary: w)
  case Nil
  then show ?case by simp
next
  case (Cons c cs)
  show ?case
  proof (cases "c = sep")
    case True
    with Cons.prems have "w = [] \<or> w \<in> set (js_split cs sep)" by auto
    then show ?thesis
    proof
      assume "w = []" then show ?thesis by simp
    next
      assume "w \<in> set (js_split cs sep)"
      then have "sublist w cs" by (rule Cons.IH)
      then show ?thesis by (simp add: sublist_Cons_right)
    qed
  next
    case False
    obtain v vs where split: "js_split cs sep = v # vs"
      using js_split_nonempty [of cs sep] by (cases "js_split cs sep") auto
    with False Cons.prems have "w = c # v \<or> w \<in> set vs" by auto
    then show ?thesis
    proof
      assume w: "w = c # v"
      have "prefix v cs" using split by (rule js_split_hd_prefix)
      then have "prefix w (c # cs)" by (simp add: w)
      then show ?thesis by (simp add: sublist_Cons_right)
    next
      assume "w \<in> set vs"
      then have "w \<in> set (js_split cs sep)" by (simp add: split)
      then have "sublist w cs" by (rule Cons.IH)
      then show ?thesis by (simp add: sublist_Cons_right)
    qed
  qed
qed


section \<open>Properties of the matcher\<close>

lemma js_includes_mono: "sublist w s \<Longrightarrow> js_includes w k \<Longrightarrow> js_includes s k"
  unfolding js_includes_def by (rule sublist_order.order_trans)

lemma detect_mono:
  assumes "sublist (toLowerCase w) (toLowerCase q)"
  shows "set (detectSpecificKeywords w) \<subseteq> set (detectSpecificKeywords q)"
  using js_includes_mono [OF assms]
  by (auto simp add: detectSpecificKeywords_def Let_def)

lemma detect_word_empty:
  assumes empty: "detectSpecificKeywords q = []"
    and word: "w \<in> set (js_split (toLowerCase q) sep)"
  shows "detectSpecificKeywords w = []"
proof -
  have sub: "sublist w (toLowerCase q)" using word by (rule js_split_sublist)
  then have "toLowerCase w = w" by (rule toLowerCase_sublist)
  with sub have "sublist (toLowerCase w) (toLowerCase q)" by simp
  then have "set (detectSpecificKeywords w) \<subseteq> set (detectSpecificKeywords q)"
    by (rule detect_mono)
  with empty show ?thesis by simp
qed

lemma loop_no_hits:
  "\<forall>w \<in> set words. detectSpecificKeywords w = [] \<Longrightarrow>
   findRelevantData_loop words partialResults = partialResults"
  by (induction words arbitrary: partialResults) (simp_all add: searchBPSData_def)

lemma uniqueBySubject_Nil: "uniqueBySubject [] = []"
  by (simp add: uniqueBySubject_def)

text \<open>
  Claim C10. For every input string \<open>findRelevantData\<close> returns the result of
  \<open>detectSpecificKeywords\<close> cut to five elements. When the keyword phase finds nothing,
  the full-text phase is the same search, and each word of the lower-cased input is a part
  of it, so that no word finds a record either; the per-word phase then adds nothing.
  Hence \<open>findRelevantData\<close> is empty exactly when \<open>detectSpecificKeywords\<close> is.
  The keyword search is monotone: what it finds for a string \<open>w\<close> it also finds for
  every string that contains \<open>w\<close>.
\<close>

theorem findRelevantData_is_keyword_phase:
  "findRelevantData q = take 5 (detectSpecificKeywords q) \<and>
   (findRelevantData q = [] \<longleftrightarrow> detectSpecificKeywords q = []) \<and>
   set (detectSpecificKeywords w) \<subseteq> set (detectSpecificKeywords (p @ w @ s))"
proof (intro conjI)
  have "sublist (toLowerCase w) (toLowerCase (p @ w @ s))"
    by (simp add: toLowerCase_append)
  then show "set (detectSpecificKeywords w) \<subseteq> set (detectSpecificKeywords (p @ w @ s))"
    by (rule detect_mono)
  show eq: "findRelevantData q = take 5 (detectSpecificKeywords q)"
  proof (cases "detectSpecificKeywords q = []")
    case False
    then show ?thesis by (simp add: findRelevantData_def)
  next
    case True
    have "\<forall>w \<in> set (filter (\<lambda>word. length word > 2) (js_split (toLowerCase q) 0x20)).
            detectSpecificKeywords w = []"
      using detect_word_empty [OF True] by auto
    then have "findRelevantData_loop
        (filter (\<lambda>word. length word > 2) (js_split (toLowerCase q) 0x20)) [] = []"
      by (rule loop_no_hits)
    with True show ?thesis
      by (simp add: findRelevantData_def searchBPSData_def uniqueBySubject_Nil)
  qed
  show "findRelevantData q = [] \<longleftrightarrow> detectSpecificKeywords q = []"
    by (simp add: eq)
qed

lemma uniqueBySubject_distinct: "distinct (map subject_id (uniqueBySubject xs))"
proof -
  let ?keep = "\<lambda>(index, item). int index = findIndex (\<lambda>t. subject_id t = subject_id item) xs"
  let ?kept = "filter ?keep (enumerate 0 xs)"
  have "distinct ?kept" by simp
  moreover have "inj_on (subject_id \<circ> snd) (set ?kept)"
  proof (rule inj_onI)
    fix p r
    assume p: "p \<in> set ?kept" and r: "r \<in> set ?kept"
      and same: "(subject_id \<circ> snd) p = (subject_id \<circ> snd) r"
    obtain i x where pe: "p = (i, x)" by (cases p)
    obtain j y where re: "r = (j, y)" by (cases r)
    from same pe re have key: "subject_id x = subject_id y" by simp
    from p pe have "int i = findIndex (\<lambda>t. subject_id t = subject_id x) xs" by simp
    moreover from r re have "int j = findIndex (\<lambda>t. subject_id t = subject_id y) xs" by simp
    ultimately have "i = j" using key by simp
    moreover from p pe have "x = xs ! i" by (auto simp add: in_set_enumerate_eq)
    moreover from r re have "y = xs ! j" by (auto simp add: in_set_enumerate_eq)
    ultimately show "p = r" by (simp add: pe re)
  qed
  ultimately have "distinct (map (subject_id \<circ> snd) ?kept)"
    by (simp add: distinct_map)
  then show ?thesis by (simp add: uniqueBySubject_def)
qed

lemma mockData_distinct: "distinct (map subject_id mockData)"
  by (simp add: mockData_def js_def)

lemma detect_distinct: "distinct (map subject_id (detectSpecificKeywords q))"
  unfolding detectSpecificKeywords_def Let_def
  by (rule distinct_map_filter) (rule mockData_distinct)

lemma distinct_take_map: "distinct (map f xs) \<Longrightarrow> distinct (map f (take n xs))"
  by (simp add: take_map [symmetric] distinct_take)

text \<open>
  Claim C2. For every input string the list that \<open>findRelevantData\<close> returns has at
  most five elements, and no two of them have the same \<open>subject_id\<close>.
\<close>

theorem findRelevantData_bounded_distinct:
  "length (findRelevantData q) \<le> 5 \<and> distinct (map subject_id (findRelevantData q))"
proof
  show "length (findRelevantData q) \<le> 5"
    by (auto simp add: findRelevantData_def Let_def)
  show "distinct (map subject_id (findRelevantData q))"
    unfolding findRelevantData_def Let_def searchBPSData_def
    by (simp add: distinct_take_map detect_distinct uniqueBySubject_distinct)
qed


section \<open>Properties of the composer\<close>

text \<open>
  Claim C5. With the intent \<open>information\<close> and no match, the composer returns the fixed
  text that no relevant data was found and that a more specific keyword should be tried
  (each version of the page has its own wording), without an error, and the sources are
  the single entry of the portal, with the URL \<open>https://medankota.bps.go.id/id\<close>.
\<close>

theorem no_data_reply:
  "generatePersonalizedResponse question (js ''information'') [] =
     Inr (js ''Maaf, saya tidak menemukan data yang relevan dengan pertanyaan Anda. '' @
          [0xD83E, 0xDD14] @ js '' Coba gunakan kata kunci yang lebih spesifik.'') \<and>
   generatePersonalizedResponse2 question (js ''information'') [] =
     Inr (js ''Maaf, saya tidak menemukan data yang relevan dengan pertanyaan Anda. '' @
          [0xF0, 0x178, 0x2122] @
          js '' Coba gunakan kata kunci yang lebih spesifik seperti '' @ [0x22] @
          js ''populasi'' @ [0x22] @ js '', '' @ [0x22] @ js ''ekonomi'' @ [0x22] @
          js '', '' @ [0x22] @ js ''pendidikan'' @ [0x22] @ js '', atau '' @ [0x22] @
          js ''infrastruktur'' @ [0x22] @ js ''.'') \<and>
   handleSubmit_sources (js ''information'') [] =
     Some [\<lparr>Source.title = js ''Portal Resmi BPS Kota Medan'',
            Source.url = js ''https://medankota.bps.go.id/id''\<rparr>]"
  by (simp add: generatePersonalizedResponse_def generatePersonalizedResponse2_def
        handleSubmit_sources_def js_def)

text \<open>
  Claim C6. With the intent \<open>list\<close> the composer returns, whatever the match list, the
  same text: a header that states the number of categories, 8, followed by one line for
  each of the 8 categories of \<open>getCategories\<close>, numbered from 1, each ended by a
  newline; the lines hold exactly 8 newlines.
\<close>

theorem list_reply:
  "generatePersonalizedResponse question (js ''list'') relevantData =
     Inr (js ''Tentu! '' @ [0xD83D, 0xDCCB] @
          js '' BPS Kota Medan memiliki 8 kategori utama statistik:'' @ [0x0A, 0x0A] @
          concat (map (\<lambda>index. numToString (index + 1) @ js ''. '' @
                         getCategories ! index @ [0x0A]) [0..<8])) \<and>
   generatePersonalizedResponse2 question (js ''list'') relevantData =
     Inr (js ''Tentu! '' @ [0xF0, 0x178, 0x201C, 0x160] @
          js '' BPS Kota Medan memiliki 8 kategori utama statistik:'' @ [0x0A, 0x0A] @
          concat (map (\<lambda>index. numToString (index + 1) @ js ''. '' @
                         getCategories ! index @ [0x0A]) [0..<8])) \<and>
   length getCategories = 8 \<and>
   map (\<lambda>index. numToString (index + 1)) [0..<8] =
     [js ''1'', js ''2'', js ''3'', js ''4'', js ''5'', js ''6'', js ''7'', js ''8''] \<and>
   length (filter (\<lambda>u. u = 0x0A)
     (concat (map (\<lambda>index. numToString (index + 1) @ js ''. '' @
                         getCategories ! index @ [0x0A]) [0..<8]))) = 8"
proof (intro conjI)
  show "generatePersonalizedResponse question (js ''list'') relevantData =
     Inr (js ''Tentu! '' @ [0xD83D, 0xDCCB] @
          js '' BPS Kota Medan memiliki 8 kategori utama statistik:'' @ [0x0A, 0x0A] @
          concat (map (\<lambda>index. numToString (index + 1) @ js ''. '' @
                         getCategories ! index @ [0x0A]) [0..<8]))"
    unfolding generatePersonalizedResponse_def upt_8
    by (simp add: js_def getCategories_def numToString_digit)
  show "generatePersonalizedResponse2 question (js ''list'') relevantData =
     Inr (js ''Tentu! '' @ [0xF0, 0x178, 0x201C, 0x160] @
          js '' BPS Kota Medan memiliki 8 kategori utama statistik:'' @ [0x0A, 0x0A] @
          concat (map (\<lambda>index. numToString (index + 1) @ js ''. '' @
                         getCategories ! index @ [0x0A]) [0..<8]))"
    unfolding generatePersonalizedResponse2_def upt_8
    by (simp add: js_def getCategories_def numToString_digit)
  show "length getCategories = 8"
    by (simp add: getCategories_def)
  show "map (\<lambda>index. numToString (index + 1)) [0..<8] =
     [js ''1'', js ''2'', js ''3'', js ''4'', js ''5'', js ''6'', js ''7'', js ''8'']"
    unfolding upt_8 by (simp add: numToString_digit js_def)
  show "length (filter (\<lambda>u. u = 0x0A)
     (concat (map (\<lambda>index. numToString (index + 1) @ js ''. '' @
                         getCategories ! index @ [0x0A]) [0..<8]))) = 8"
    unfolding upt_8
    by (simp add: js_def getCategories_def numToString_digit)
qed

text \<open>
  The only read of the composer that could fail, \<open>relevantData[0]\<close>, is made under
  the guard \<open>relevantData.length > 0\<close>: each version returns a string for every
  question, question type and match list.
\<close>

lemma composer_returns_string:
  "(\<exists>s. generatePersonalizedResponse question questionType relevantData = Inr s) \<and>
   (\<exists>s. generatePersonalizedResponse2 question questionType relevantData = Inr s)"
  by (cases relevantData)
     (simp_all add: generatePersonalizedResponse_def generatePersonalizedResponse2_def Let_def)


section \<open>Sources of the canned replies\<close>

text \<open>
  Claim C1, as the code has it. For the question types \<open>greeting\<close>, \<open>thanks\<close>,
  \<open>identity\<close> and \<open>list\<close> the composed text does not depend on the match list.
  The sources are undefined when the match list is empty; when it is not, they hold one
  entry, title and URL, for each match.
\<close>

theorem canned_intent_sources:
  "questionType \<in> {js ''greeting'', js ''thanks'', js ''identity'', js ''list''} \<Longrightarrow>
   handleSubmit_sources questionType relevantData =
     (if relevantData = [] then None
      else Some (map (\<lambda>item. \<lparr>Source.title = BPSDataItem.title item,
                                Source.url = BPSDataItem.url item\<rparr>) relevantData)) \<and>
   generatePersonalizedResponse question questionType relevantData =
     generatePersonalizedResponse question questionType [] \<and>
   generatePersonalizedResponse2 question questionType relevantData =
     generatePersonalizedResponse2 question questionType []"
  by (auto simp add: handleSubmit_sources_def generatePersonalizedResponse_def
        generatePersonalizedResponse2_def)

theorem canned_intent_sources_witness:
  "js ''greeting'' \<in> {js ''greeting'', js ''thanks'', js ''identity'', js ''list''} \<and>
   handleSubmit_sources (js ''greeting'') [mockData ! 2] =
     Some [\<lparr>Source.title = BPSDataItem.title (mockData ! 2),
            Source.url = BPSDataItem.url (mockData ! 2)\<rparr>] \<and>
   handleSubmit_sources (js ''greeting'') [] = None \<and>
   generatePersonalizedResponse (js ''halo pendidikan'') (js ''greeting'') [mockData ! 2] =
     generatePersonalizedResponse (js ''halo pendidikan'') (js ''greeting'') []"
  using canned_intent_sources [of "js ''greeting''" "[mockData ! 2]" "js ''halo pendidikan''"]
    canned_intent_sources [of "js ''greeting''" "[]" "js ''halo pendidikan''"]
  by simp

text \<open>
  The input \<open>halo pendidikan\<close> is a greeting that also matches the education record:
  the reply is the canned greeting, and its sources hold the record's entry.
\<close>

theorem canned_intent_sources_counterexample:
  "detectQuestionType (js ''halo pendidikan'') = js ''greeting'' \<and>
   handleSubmit_reply (js ''halo pendidikan'') =
     Inr \<lparr>content = js ''Halo juga! '' @ [0xD83D, 0xDE0A] @
            js '' Senang bertemu dengan Anda! Saya siap membantu Anda menemukan data statistik resmi BPS Kota Medan.'',
          sources = Some [\<lparr>Source.title = js ''Statistik Pendidikan Kota Medan'',
                            Source.url = js ''https://medankota.bps.go.id/id/statistics-table/2/edu_001''\<rparr>],
          relatedData = Some [mockData ! 2]\<rparr> \<and>
   handleSubmit_sources (detectQuestionType (js ''halo pendidikan''))
       (findRelevantData (js ''halo pendidikan'')) \<notin> {None, Some []}"
  by (simp add: handleSubmit_reply_def type_halo_pendidikan find_halo_pendidikan
        generatePersonalizedResponse_def handleSubmit_sources_def
        handleSubmit_relatedData_def mockData_2)


section \<open>Scenarios\<close>

text \<open>
  Claim C9. For the input \<open>populasi kota medan\<close> the matcher returns a non-empty list
  whose first element is the population record, the one with \<open>subject_id\<close>
  \<open>pop_001\<close> and category \<open>Kependudukan\<close>; it is in fact the only element.
\<close>

theorem populasi_kota_medan_first:
  "findRelevantData (js ''populasi kota medan'') = [mockData ! 0] \<and>
   subject_id (mockData ! 0) = js ''pop_001'' \<and>
   category (mockData ! 0) = js ''Kependudukan''"
  by (simp add: findRelevantData_def detect_populasi) (simp add: mockData_def)

text \<open>
  Claim C8. For the input \<open>data pendidikan\<close> the classifier returns \<open>information\<close>,
  the matcher returns exactly the education record (\<open>subject_id\<close> \<open>edu_001\<close>), the
  composed text contains the record's title and its description, and the sources are the
  single entry with the title \<open>Statistik Pendidikan Kota Medan\<close> and the record's URL.
\<close>

theorem data_pendidikan_scenario:
  "detectQuestionType (js ''data pendidikan'') = js ''information'' \<and>
   findRelevantData (js ''data pendidikan'') = [mockData ! 2] \<and>
   subject_id (mockData ! 2) = js ''edu_001'' \<and>
   BPSDataItem.title (mockData ! 2) = js ''Statistik Pendidikan Kota Medan'' \<and>
   handleSubmit_reply2 (js ''data pendidikan'') =
     Inr \<lparr>content =
            js ''Bagus! Saya menemukan dataset yang relevan: **'' @
            BPSDataItem.title (mockData ! 2) @ js ''**'' @ [0x0A, 0x0A] @
            description (mockData ! 2) @ [0x0A, 0x0A] @
            js ''Klik link di bawah untuk melihat data lengkap dari portal resmi BPS. '' @
            [0xF0, 0x178, 0x201D, 0x2014],
          sources = Some [\<lparr>Source.title = js ''Statistik Pendidikan Kota Medan'',
                            Source.url = BPSDataItem.url (mockData ! 2)\<rparr>],
          relatedData = Some [mockData ! 2]\<rparr> \<and>
   js_includes
     (js ''Bagus! Saya menemukan dataset yang relevan: **'' @
      BPSDataItem.title (mockData ! 2) @ js ''**'' @ [0x0A, 0x0A] @
      description (mockData ! 2) @ [0x0A, 0x0A] @
      js ''Klik link di bawah untuk melihat data lengkap dari portal resmi BPS. '' @
      [0xF0, 0x178, 0x201D, 0x2014])
     (BPSDataItem.title (mockData ! 2)) \<and>
   js_includes
     (js ''Bagus! Saya menemukan dataset yang relevan: **'' @
      BPSDataItem.title (mockData ! 2) @ js ''**'' @ [0x0A, 0x0A] @
      description (mockData ! 2) @ [0x0A, 0x0A] @
      js ''Klik link di bawah untuk melihat data lengkap dari portal resmi BPS. '' @
      [0xF0, 0x178, 0x201D, 0x2014])
     (description (mockData ! 2))"
proof (intro conjI)
  show "detectQuestionType (js ''data pendidikan'') = js ''information''"
    by (rule type_data_pendidikan)
  show "findRelevantData (js ''data pendidikan'') = [mockData ! 2]"
    by (rule find_pendidikan)
  show "subject_id (mockData ! 2) = js ''edu_001''"
    by (simp add: mockData_2)
  show "BPSDataItem.title (mockData ! 2) = js ''Statistik Pendidikan Kota Medan''"
    by (simp add: mockData_2)
  show "handleSubmit_reply2 (js ''data pendidikan'') =
     Inr \<lparr>content =
            js ''Bagus! Saya menemukan dataset yang relevan: **'' @
            BPSDataItem.title (mockData ! 2) @ js ''**'' @ [0x0A, 0x0A] @
            description (mockData ! 2) @ [0x0A, 0x0A] @
            js ''Klik link di bawah untuk melihat data lengkap dari portal resmi BPS. '' @
            [0xF0, 0x178, 0x201D, 0x2014],
          sources = Some [\<lparr>Source.title = js ''Statistik Pendidikan Kota Medan'',
                            Source.url = BPSDataItem.url (mockData ! 2)\<rparr>],
          relatedData = Some [mockData ! 2]\<rparr>"
    by (simp add: handleSubmit_reply2_def type_data_pendidikan find_pendidikan
          generatePersonalizedResponse2_def questionType_distinct
          handleSubmit_sources_def handleSubmit_relatedData_def mockData_2)
  show "js_includes
     (js ''Bagus! Saya menemukan dataset yang relevan: **'' @
      BPSDataItem.title (mockData ! 2) @ js ''**'' @ [0x0A, 0x0A] @
      description (mockData ! 2) @ [0x0A, 0x0A] @
      js ''Klik link di bawah untuk melihat data lengkap dari portal resmi BPS. '' @
      [0xF0, 0x178, 0x201D, 0x2014])
     (BPSDataItem.title (mockData ! 2))"
    by (rule includes_middle)
  show "js_includes
     (js ''Bagus! Saya menemukan dataset yang relevan: **'' @
      BPSDataItem.title (mockData ! 2) @ js ''**'' @ [0x0A, 0x0A] @
      description (mockData ! 2) @ [0x0A, 0x0A] @
      js ''Klik link di bawah untuk melihat data lengkap dari portal resmi BPS. '' @
      [0xF0, 0x178, 0x201D, 0x2014])
     (description (mockData ! 2))"
    using includes_middle2 [of "js ''Bagus! Saya menemukan dataset yang relevan: **''"
        "BPSDataItem.title (mockData ! 2)" "js ''**'' @ [0x0A, 0x0A]" "description (mockData ! 2)"]
    by simp
qed

end
